theory Spec2Isabelle
  imports Main
begin

section \<open>Data model\<close>

text \<open>
  The chat backend keeps two collections in its document store (messages and
  conversations) and one process-wide table of online users. The handlers of the
  socket server and of the chat controller are embedded as functions that take the
  store and return the new store together with what they emit or answer.
  The model and schema declarations of the repository are outside the verified
  sources; a field exists in a record below because a handler reads or writes it.
\<close>

type_synonym userId = string
type_synonym convId = string
type_synonym socketId = string
type_synonym msgId = nat

record imageRef =
  public_id :: string
  url :: string
  secure_url :: string

record reaction =
  user :: userId
  emoji :: string
  createdAt :: nat

text \<open>
  A message document. \<open>mid\<close> is the document's \<open>_id\<close>; \<open>imageField\<close> is its
  \<open>image\<close> path; \<open>recipient\<close> is optional because \<open>addMessage\<close> stores the result of
  an array search that may find nothing. \<open>fileField\<close> is its \<open>file\<close> path. An absent path is
  \<open>None\<close> (JavaScript \<open>undefined\<close> or \<open>null\<close>). \<open>messageCreatedAt\<close> is the
  message's \<open>createdAt\<close>, \<open>None\<close> where the handler leaves it to the schema.
\<close>

record msg =
  mid :: msgId
  sender :: userId
  recipient :: "userId option"
  conversationId :: convId
  content :: "string option"
  imageField :: "imageRef option"
  fileField :: "string option"
  reactions :: "reaction list"
  edited :: bool
  editedAt :: "nat option"
  deleted :: bool
  read :: bool
  messageCreatedAt :: "nat option"

record conversation =
  cid :: convId
  participants :: "userId list"
  lastMessage :: "msgId option"
  unreadCount :: "userId \<rightharpoonup> nat"

text \<open>
  The store: the message collection in insertion order, the conversation collection
  keyed by \<open>_id\<close>, and the source of fresh message ids.
\<close>

record db =
  messages :: "msg list"
  conversations :: "convId \<rightharpoonup> conversation"
  nextId :: msgId

text \<open>
  Every awaited store call of a handler may throw. The handlers take the set of calls
  that fail in the invocation at hand; the first failing call that is reached transfers
  control to the handler's \<open>catch\<close> block.
\<close>

datatype dbcall =
    MessageSave
  | MessageCreate
  | MessagePopulate
  | MessageFindById
  | MessageFind
  | MessageUpdateMany
  | ConversationFindById
  | ConversationSave

subsection \<open>Emitted events and responses\<close>

datatype payload =
    UserStatus userId string
  | NewMessage msg
  | MessageNotification msg convId
  | MessageError string
  | MessagesRead userId "msgId list"
  | UserTyping userId bool
  | ReactionError string
  | ReactionUpdate msgId "reaction list"
  | EditError string
  | MessageEdited msg
  | DeleteError string
  | MessageDeleted msgId userId

text \<open>
  Where an event goes: \<open>io.emit\<close> reaches every connection, \<open>io.to(r).emit\<close> the
  room \<open>r\<close> (a conversation id, or a socket id for that socket's own room),
  \<open>socket.emit\<close> the calling connection only, \<open>socket.to(r).emit\<close> the room without
  the caller.
\<close>

datatype dest =
    ToAll
  | ToRoom string
  | ToSender
  | ToRoomExceptSender string

type_synonym emit = "dest \<times> payload"

datatype body =
    Text string
  | OneMessage msg
  | MessageList "msg list"

record response =
  status :: nat
  success :: bool
  payloadBody :: body

definition respond :: "nat \<Rightarrow> bool \<Rightarrow> body \<Rightarrow> response" where
  "respond st ok b = \<lparr>status = st, success = ok, payloadBody = b\<rparr>"

subsection \<open>Store primitives\<close>

definition findById :: "db \<Rightarrow> msgId \<Rightarrow> msg option" where
  "findById d i = find (\<lambda>m. mid m = i) (messages d)"

text \<open>\<open>save\<close> of a new document appends it; \<open>save\<close> of a loaded one replaces it.\<close>

definition insertMessage :: "db \<Rightarrow> msg \<Rightarrow> db" where
  "insertMessage d m = d\<lparr>messages := messages d @ [m], nextId := Suc (nextId d)\<rparr>"

definition saveMessage :: "db \<Rightarrow> msg \<Rightarrow> db" where
  "saveMessage d m = d\<lparr>messages := map (\<lambda>x. if mid x = mid m then m else x) (messages d)\<rparr>"

definition saveConversation :: "db \<Rightarrow> convId \<Rightarrow> conversation \<Rightarrow> db" where
  "saveConversation d c conv = d\<lparr>conversations := (conversations d)(c \<mapsto> conv)\<rparr>"

text \<open>\<open>Message.updateMany(filter, {read: true})\<close>.\<close>

definition updateManyRead :: "(msg \<Rightarrow> bool) \<Rightarrow> db \<Rightarrow> db" where
  "updateManyRead sel d =
     d\<lparr>messages := map (\<lambda>m. if sel m then m\<lparr>read := True\<rparr> else m) (messages d)\<rparr>"

text \<open>\<open>conversation.unreadCount.get(u) || 0\<close>.\<close>

definition getUnread :: "conversation \<Rightarrow> userId \<Rightarrow> nat" where
  "getUnread conv u = (case unreadCount conv u of None \<Rightarrow> 0 | Some n \<Rightarrow> n)"

text \<open>
  \<open>String.prototype.trim\<close>. A \<open>string\<close> holds the UTF-8 bytes of the JavaScript
  string. \<open>whiteSpace\<close> lists the encodings of the code points that \<open>trim\<close> removes:
  the white space and line terminators of ECMAScript, that is U+0020, U+0009 to
  U+000D, U+00A0, U+1680, U+2000 to U+200A, U+2028, U+2029, U+202F, U+205F, U+3000
  and U+FEFF.
\<close>

definition whiteSpace :: "string list" where
  "whiteSpace =
     [[CHR 0x20], [CHR 0x09], [CHR 0x0A], [CHR 0x0B], [CHR 0x0C], [CHR 0x0D],
      [CHR 0xC2, CHR 0xA0],
      [CHR 0xE1, CHR 0x9A, CHR 0x80],
      [CHR 0xE2, CHR 0x80, CHR 0x80], [CHR 0xE2, CHR 0x80, CHR 0x81],
      [CHR 0xE2, CHR 0x80, CHR 0x82], [CHR 0xE2, CHR 0x80, CHR 0x83],
      [CHR 0xE2, CHR 0x80, CHR 0x84], [CHR 0xE2, CHR 0x80, CHR 0x85],
      [CHR 0xE2, CHR 0x80, CHR 0x86], [CHR 0xE2, CHR 0x80, CHR 0x87],
      [CHR 0xE2, CHR 0x80, CHR 0x88], [CHR 0xE2, CHR 0x80, CHR 0x89],
      [CHR 0xE2, CHR 0x80, CHR 0x8A],
      [CHR 0xE2, CHR 0x80, CHR 0xA8], [CHR 0xE2, CHR 0x80, CHR 0xA9],
      [CHR 0xE2, CHR 0x80, CHR 0xAF],
      [CHR 0xE2, CHR 0x81, CHR 0x9F],
      [CHR 0xE3, CHR 0x80, CHR 0x80],
      [CHR 0xEF, CHR 0xBB, CHR 0xBF]]"

text \<open>Remove one of the sequences \<open>ws\<close> from the front of \<open>s\<close>, if one is there.\<close>

definition stripOne :: "string list \<Rightarrow> string \<Rightarrow> string option" where
  "stripOne ws s =
     (case find (\<lambda>w. take (length w) s = w) ws of
        None \<Rightarrow> None
      | Some w \<Rightarrow> Some (drop (length w) s))"

text \<open>
  Remove sequences from the front for as long as there is one, in at most \<open>n\<close>
  rounds. Every round removes at least one byte, so \<open>length s\<close> rounds are enough.
\<close>

fun stripAll :: "nat \<Rightarrow> string list \<Rightarrow> string \<Rightarrow> string" where
  "stripAll 0 ws s = s"
| "stripAll (Suc n) ws s =
     (case stripOne ws s of None \<Rightarrow> s | Some r \<Rightarrow> stripAll n ws r)"

definition trimStart :: "string \<Rightarrow> string" where
  "trimStart s = stripAll (length s) whiteSpace s"

definition trimEnd :: "string \<Rightarrow> string" where
  "trimEnd s = rev (stripAll (length s) (map rev whiteSpace) (rev s))"

definition trim :: "string \<Rightarrow> string" where
  "trim s = trimEnd (trimStart s)"

section \<open>The socket server\<close>

subsection \<open>Presence\<close>

text \<open>
  \<open>onlineUsers\<close> is the module's \<open>Map\<close> from a user id to one socket id; \<open>sockets\<close>
  is the set of live connections of the socket server, each bound to the user of its
  token.
\<close>

record server =
  onlineUsers :: "userId \<rightharpoonup> socketId"
  sockets :: "socketId \<rightharpoonup> userId"

definition connection :: "server \<Rightarrow> socketId \<Rightarrow> userId \<Rightarrow> server \<times> emit list" where
  "connection srv sid userId =
     (srv\<lparr>sockets := (sockets srv)(sid \<mapsto> userId),
          onlineUsers := (onlineUsers srv)(userId \<mapsto> sid)\<rparr>,
      [(ToAll, UserStatus userId ''online'')])"

definition disconnect :: "server \<Rightarrow> socketId \<Rightarrow> server \<times> emit list" where
  "disconnect srv sid =
     (case sockets srv sid of
        None \<Rightarrow> (srv, [])
      | Some userId \<Rightarrow>
          (srv\<lparr>sockets := (sockets srv)(sid := None),
               onlineUsers := (onlineUsers srv)(userId := None)\<rparr>,
           [(ToAll, UserStatus userId ''offline'')]))"

subsection \<open>sendMessage\<close>

definition sendError :: "emit list" where
  "sendError = [(ToSender, MessageError ''Failed to send message'')]"

definition sendMessage ::
  "dbcall set \<Rightarrow> (userId \<rightharpoonup> socketId) \<Rightarrow> db \<Rightarrow> userId \<Rightarrow> userId \<Rightarrow> string option \<Rightarrow>
     convId \<Rightarrow> imageRef option \<Rightarrow> db \<times> emit list" where
  "sendMessage failing online d userId recipientId contentArg convArg imageArg =
     (let newMessage =
            \<lparr>mid = nextId d, sender = userId, recipient = Some recipientId,
             conversationId = convArg,
             content = (case contentArg of
                          None \<Rightarrow> None
                        | Some s \<Rightarrow> if s = [] then None else Some s),
             imageField = imageArg, fileField = None, reactions = [], edited = False,
             editedAt = None, deleted = False, read = False,
             messageCreatedAt = None\<rparr>
      in if MessageSave \<in> failing then (d, sendError)
         else
           let d1 = insertMessage d newMessage
           in if MessagePopulate \<in> failing then (d1, sendError)
              else if ConversationFindById \<in> failing then (d1, sendError)
              else
                let conv =
                      (case conversations d1 convArg of
                         None \<Rightarrow>
                           \<lparr>cid = convArg, participants = [userId, recipientId],
                            lastMessage = Some (mid newMessage),
                            unreadCount = [recipientId \<mapsto> 1]\<rparr>
                       | Some c \<Rightarrow>
                           c\<lparr>lastMessage := Some (mid newMessage),
                             unreadCount :=
                               (unreadCount c)(recipientId \<mapsto> getUnread c recipientId + 1)\<rparr>)
                in if ConversationSave \<in> failing then (d1, sendError)
                   else
                     (saveConversation d1 convArg conv,
                      (ToRoom convArg, NewMessage newMessage) #
                      (case online recipientId of
                         None \<Rightarrow> []
                       | Some recipientSocketId \<Rightarrow>
                           [(ToRoom recipientSocketId,
                             MessageNotification newMessage convArg)])))"

subsection \<open>markAsRead\<close>

definition markAsRead ::
  "dbcall set \<Rightarrow> db \<Rightarrow> userId \<Rightarrow> convId \<Rightarrow> msgId list \<Rightarrow> db \<times> emit list" where
  "markAsRead failing d userId convArg messageIds =
     (if MessageUpdateMany \<in> failing then (d, [])
      else
        let d1 = updateManyRead (\<lambda>m. mid m \<in> set messageIds) d
        in if ConversationFindById \<in> failing then (d1, [])
           else
             (case conversations d1 convArg of
                None \<Rightarrow> (d1, [(ToRoom convArg, MessagesRead userId messageIds)])
              | Some c \<Rightarrow>
                  if ConversationSave \<in> failing then (d1, [])
                  else
                    (saveConversation d1 convArg
                       (c\<lparr>unreadCount := (unreadCount c)(userId \<mapsto> 0)\<rparr>),
                     [(ToRoom convArg, MessagesRead userId messageIds)])))"

subsection \<open>typing\<close>

definition typing :: "userId \<Rightarrow> convId \<Rightarrow> bool \<Rightarrow> emit list" where
  "typing userId convArg isTyping = [(ToRoomExceptSender convArg, UserTyping userId isTyping)]"

subsection \<open>addReaction\<close>

definition sameReaction :: "userId \<Rightarrow> string \<Rightarrow> reaction \<Rightarrow> bool" where
  "sameReaction userId emojiArg r = (user r = userId \<and> emoji r = emojiArg)"

definition toggleReaction :: "nat \<Rightarrow> userId \<Rightarrow> string \<Rightarrow> msg \<Rightarrow> msg" where
  "toggleReaction now userId emojiArg message =
     (case find (sameReaction userId emojiArg) (reactions message) of
        Some existingReaction \<Rightarrow>
          message\<lparr>reactions :=
            filter (\<lambda>r. \<not> sameReaction userId emojiArg r) (reactions message)\<rparr>
      | None \<Rightarrow>
          message\<lparr>reactions :=
            reactions message @ [\<lparr>user = userId, emoji = emojiArg, createdAt = now\<rparr>]\<rparr>)"

definition addReaction ::
  "dbcall set \<Rightarrow> nat \<Rightarrow> db \<Rightarrow> userId \<Rightarrow> msgId \<Rightarrow> string \<Rightarrow> db \<times> emit list" where
  "addReaction failing now d userId messageId emojiArg =
     (if MessageFindById \<in> failing
      then (d, [(ToSender, ReactionError ''Failed to add reaction'')])
      else
        (case findById d messageId of
           None \<Rightarrow> (d, [(ToSender, ReactionError ''Message not found'')])
         | Some message \<Rightarrow>
             let message' = toggleReaction now userId emojiArg message
             in if MessageSave \<in> failing
                then (d, [(ToSender, ReactionError ''Failed to add reaction'')])
                else
                  let d1 = saveMessage d message'
                  in if MessagePopulate \<in> failing
                     then (d1, [(ToSender, ReactionError ''Failed to add reaction'')])
                     else (d1, [(ToRoom (conversationId message'),
                                 ReactionUpdate messageId (reactions message'))])))"

subsection \<open>editMessage and deleteMessage (socket events)\<close>

definition socket_editMessage ::
  "dbcall set \<Rightarrow> nat \<Rightarrow> db \<Rightarrow> userId \<Rightarrow> msgId \<Rightarrow> string option \<Rightarrow> db \<times> emit list" where
  "socket_editMessage failing now d userId messageId contentArg =
     (if MessageFindById \<in> failing
      then (d, [(ToSender, EditError ''Failed to edit message'')])
      else
        (case findById d messageId of
           None \<Rightarrow> (d, [(ToSender, EditError ''Message not found'')])
         | Some message \<Rightarrow>
             if sender message \<noteq> userId
             then (d, [(ToSender, EditError ''You can only edit your own messages'')])
             else
               let message' = message\<lparr>content := contentArg, edited := True,
                                      editedAt := Some now\<rparr>
               in if MessageSave \<in> failing
                  then (d, [(ToSender, EditError ''Failed to edit message'')])
                  else
                    let d1 = saveMessage d message'
                    in if MessagePopulate \<in> failing
                       then (d1, [(ToSender, EditError ''Failed to edit message'')])
                       else (d1, [(ToRoom (conversationId message'),
                                   MessageEdited message')])))"

definition tombstone :: string where
  "tombstone = ''This message has been deleted''"

definition socket_deleteMessage ::
  "dbcall set \<Rightarrow> db \<Rightarrow> userId \<Rightarrow> msgId \<Rightarrow> db \<times> emit list" where
  "socket_deleteMessage failing d userId messageId =
     (if MessageFindById \<in> failing
      then (d, [(ToSender, DeleteError ''Failed to delete message'')])
      else
        (case findById d messageId of
           None \<Rightarrow> (d, [(ToSender, DeleteError ''Message not found'')])
         | Some message \<Rightarrow>
             if sender message \<noteq> userId
             then (d, [(ToSender, DeleteError ''You can only delete your own messages'')])
             else
               let message' = message\<lparr>deleted := True, content := Some tombstone,
                                      imageField := None, fileField := None\<rparr>
               in if MessageSave \<in> failing
                  then (d, [(ToSender, DeleteError ''Failed to delete message'')])
                  else (saveMessage d message',
                        [(ToRoom (conversationId message'),
                          MessageDeleted messageId userId)])))"

section \<open>The chat controller\<close>

text \<open>\<open>Number.parseInt(q) || dflt\<close>, the parse result being \<open>None\<close> for \<open>NaN\<close>.\<close>

definition orDefault :: "int option \<Rightarrow> int \<Rightarrow> int" where
  "orDefault v dflt = (case v of None \<Rightarrow> dflt | Some n \<Rightarrow> if n = 0 then dflt else n)"

subsection \<open>getMessages\<close>

text \<open>
  The page is read newest first, \<open>skip\<close> documents are passed over and at most
  \<open>limit\<close> are taken; the store rejects a negative \<open>skip\<close> and reads a negative
  \<open>limit\<close> as its absolute value. The collection is kept in creation order, so
  newest first is the reversed collection.
\<close>

definition pageOf :: "db \<Rightarrow> convId \<Rightarrow> int \<Rightarrow> int \<Rightarrow> msg list" where
  "pageOf d convArg skip limit =
     take (nat \<bar>limit\<bar>) (drop (nat skip)
       (rev (filter (\<lambda>m. conversationId m = convArg) (messages d))))"

definition fetchError :: response where
  "fetchError = respond 500 False (Text ''Error fetching messages'')"

definition getMessages ::
  "dbcall set \<Rightarrow> db \<Rightarrow> userId \<Rightarrow> convId \<Rightarrow> int option \<Rightarrow> int option \<Rightarrow> db \<times> response" where
  "getMessages failing d userId convArg pageArg limitArg =
     (if ConversationFindById \<in> failing then (d, fetchError)
      else
        (case conversations d convArg of
           None \<Rightarrow> (d, respond 404 False (Text ''Conversation not found''))
         | Some conv \<Rightarrow>
             if userId \<notin> set (participants conv)
             then (d, respond 403 False
                        (Text ''You do not have access to this conversation''))
             else
               let page = orDefault pageArg 1;
                   limit = orDefault limitArg 20;
                   skip = (page - 1) * limit
               in if MessageFind \<in> failing \<or> skip < 0 then (d, fetchError)
                  else
                    let found = pageOf d convArg skip limit
                    in if MessageUpdateMany \<in> failing then (d, fetchError)
                       else
                         let d1 = updateManyRead
                                    (\<lambda>m. conversationId m = convArg \<and>
                                         recipient m = Some userId \<and> \<not> read m) d
                         in if ConversationSave \<in> failing then (d1, fetchError)
                            else
                              (saveConversation d1 convArg
                                 (conv\<lparr>unreadCount := (unreadCount conv)(userId \<mapsto> 0)\<rparr>),
                               respond 200 True (MessageList (rev found)))))"

subsection \<open>addMessage\<close>

text \<open>\<open>(!content || content.trim().length === 0) && !image\<close>.\<close>

definition nothingToSend :: "string option \<Rightarrow> imageRef option \<Rightarrow> bool" where
  "nothingToSend contentArg imageArg =
     ((case contentArg of None \<Rightarrow> True | Some s \<Rightarrow> s = [] \<or> length (trim s) = 0)
      \<and> imageArg = None)"

definition bumpOthers :: "userId \<Rightarrow> (userId \<rightharpoonup> nat) \<Rightarrow> userId list \<Rightarrow> (userId \<rightharpoonup> nat)" where
  "bumpOthers userId counts ps =
     foldl (\<lambda>u p. if p \<noteq> userId
                   then u(p \<mapsto> (case u p of None \<Rightarrow> 0 | Some n \<Rightarrow> n) + 1)
                   else u) counts ps"

definition addError :: response where
  "addError = respond 500 False (Text ''Error adding message'')"

definition addMessage ::
  "dbcall set \<Rightarrow> nat \<Rightarrow> db \<Rightarrow> userId \<Rightarrow> convId \<Rightarrow> string option \<Rightarrow> imageRef option \<Rightarrow>
     db \<times> response" where
  "addMessage failing now d userId convArg contentArg imageArg =
     (if nothingToSend contentArg imageArg
      then (d, respond 400 False (Text ''Message must have text or an image''))
      else if ConversationFindById \<in> failing then (d, addError)
      else
        (case conversations d convArg of
           None \<Rightarrow> (d, respond 404 False (Text ''Conversation not found''))
         | Some conv \<Rightarrow>
             if userId \<notin> set (participants conv)
             then (d, respond 403 False (Text ''No access to this conversation''))
             else
               let recipientId = find (\<lambda>p. p \<noteq> userId) (participants conv)
               in if MessageCreate \<in> failing then (d, addError)
                  else
                    let message =
                          \<lparr>mid = nextId d, sender = userId, recipient = recipientId,
                           conversationId = convArg,
                           content = Some (case contentArg of
                                             None \<Rightarrow> []
                                           | Some s \<Rightarrow> trim s),
                           imageField = imageArg, fileField = None, reactions = [],
                           edited = False, editedAt = None, deleted = False,
                           read = False, messageCreatedAt = Some now\<rparr>;
                        d1 = insertMessage d message;
                        conv' = conv\<lparr>lastMessage := Some (mid message),
                                    unreadCount :=
                                      bumpOthers userId (unreadCount conv)
                                        (participants conv)\<rparr>
                    in if ConversationSave \<in> failing then (d1, addError)
                       else
                         let d2 = saveConversation d1 convArg conv'
                         in if MessagePopulate \<in> failing then (d2, addError)
                            else (d2, respond 201 True (OneMessage message))))"

subsection \<open>deleteMessage and editMessage (HTTP routes)\<close>

definition deleteMessage :: "dbcall set \<Rightarrow> db \<Rightarrow> userId \<Rightarrow> msgId \<Rightarrow> db \<times> response" where
  "deleteMessage failing d userId messageId =
     (if MessageFindById \<in> failing
      then (d, respond 500 False (Text ''Error deleting message''))
      else
        (case findById d messageId of
           None \<Rightarrow> (d, respond 404 False (Text ''Message not found''))
         | Some message \<Rightarrow>
             if sender message \<noteq> userId
             then (d, respond 403 False (Text ''You can only delete your own messages''))
             else
               let message' = message\<lparr>deleted := True, content := Some tombstone,
                                      imageField := None\<rparr>
               in if MessageSave \<in> failing
                  then (d, respond 500 False (Text ''Error deleting message''))
                  else (saveMessage d message',
                        respond 200 True (Text ''Message deleted successfully''))))"

definition editMessage ::
  "dbcall set \<Rightarrow> nat \<Rightarrow> db \<Rightarrow> userId \<Rightarrow> msgId \<Rightarrow> string option \<Rightarrow> db \<times> response" where
  "editMessage failing now d userId messageId contentArg =
     (case contentArg of
        None \<Rightarrow> (d, respond 400 False (Text ''Message content cannot be empty''))
      | Some s \<Rightarrow>
          if s = [] \<or> length (trim s) = 0
          then (d, respond 400 False (Text ''Message content cannot be empty''))
          else if MessageFindById \<in> failing
          then (d, respond 500 False (Text ''Error editing message''))
          else
            (case findById d messageId of
               None \<Rightarrow> (d, respond 404 False (Text ''Message not found''))
             | Some message \<Rightarrow>
                 if sender message \<noteq> userId
                 then (d, respond 403 False
                            (Text ''You can only edit your own messages''))
                 else
                   let message' = message\<lparr>content := Some (trim s), edited := True,
                                          editedAt := Some now\<rparr>
                   in if MessageSave \<in> failing
                      then (d, respond 500 False (Text ''Error editing message''))
                      else
                        let d1 = saveMessage d message'
                        in if MessagePopulate \<in> failing
                           then (d1, respond 500 False (Text ''Error editing message''))
                           else (d1, respond 200 True (OneMessage message'))))"

section \<open>Observations used by the properties\<close>

text \<open>The counter stored for \<open>p\<close> in conversation \<open>c\<close>, if there is one.\<close>

definition storedUnread :: "db \<Rightarrow> convId \<Rightarrow> userId \<Rightarrow> nat option" where
  "storedUnread d c p =
     (case conversations d c of None \<Rightarrow> None | Some conv \<Rightarrow> unreadCount conv p)"

text \<open>The number of stored messages of \<open>c\<close> addressed to \<open>p\<close> and not read.\<close>

definition unreadTo :: "db \<Rightarrow> convId \<Rightarrow> userId \<Rightarrow> nat" where
  "unreadTo d c p =
     length (filter (\<lambda>m. conversationId m = c \<and> recipient m = Some p \<and> \<not> read m)
               (messages d))"

definition counterAgrees :: "db \<Rightarrow> convId \<Rightarrow> userId \<Rightarrow> bool" where
  "counterAgrees d c p = (storedUnread d c p = Some (unreadTo d c p))"

text \<open>
  A sequence of \<open>sendMessage\<close> and \<open>markAsRead\<close> events on one conversation, run one
  after the other with every store call succeeding.
\<close>

datatype op =
    Send userId userId "string option" "imageRef option"
  | MarkRead userId "msgId list"

fun applyOp :: "(userId \<rightharpoonup> socketId) \<Rightarrow> convId \<Rightarrow> db \<Rightarrow> op \<Rightarrow> db" where
  "applyOp online c d (Send u r contentArg imageArg) =
     fst (sendMessage {} online d u r contentArg c imageArg)"
| "applyOp online c d (MarkRead u ids) = fst (markAsRead {} d u c ids)"

fun run :: "(userId \<rightharpoonup> socketId) \<Rightarrow> convId \<Rightarrow> db \<Rightarrow> op list \<Rightarrow> db" where
  "run online c d [] = d"
| "run online c d (x # xs) = run online c (applyOp online c d x) xs"

text \<open>
  A read receipt is complete when, among the unread messages of the conversation, it
  names those addressed to the reader and no other.
\<close>

fun complete :: "convId \<Rightarrow> db \<Rightarrow> op \<Rightarrow> bool" where
  "complete c d (Send u r contentArg imageArg) = True"
| "complete c d (MarkRead u ids) =
     list_all (\<lambda>m. conversationId m = c \<and> \<not> read m \<longrightarrow>
                     (mid m \<in> set ids) = (recipient m = Some u)) (messages d)"

fun allComplete :: "(userId \<rightharpoonup> socketId) \<Rightarrow> convId \<Rightarrow> db \<Rightarrow> op list \<Rightarrow> bool" where
  "allComplete online c d [] = True"
| "allComplete online c d (x # xs) =
     (complete c d x \<and> allComplete online c (applyOp online c d x) xs)"

text \<open>No stored message carries a file.\<close>

definition noFiles :: "db \<Rightarrow> bool" where
  "noFiles d = list_all (\<lambda>m. fileField m = None) (messages d)"

text \<open>The (user, emoji) pairs of a message's reactions, and the reactions of other pairs.\<close>

definition reactionSet :: "msg \<Rightarrow> (userId \<times> string) set" where
  "reactionSet m = set (map (\<lambda>r. (user r, emoji r)) (reactions m))"

definition otherReactions :: "userId \<Rightarrow> string \<Rightarrow> msg \<Rightarrow> reaction list" where
  "otherReactions u e m = filter (\<lambda>r. \<not> sameReaction u e r) (reactions m)"

subsection \<open>Sample stores\<close>

definition emptyDb :: db where
  "emptyDb = \<lparr>messages = [], conversations = Map.empty, nextId = 0\<rparr>"

text \<open>Conversation \<open>c1\<close> between alice and bob, as \<open>findOrCreateConversation\<close> stores it.\<close>

definition freshConversation :: conversation where
  "freshConversation =
     \<lparr>cid = ''c1'', participants = [''alice'', ''bob''], lastMessage = None,
      unreadCount = [''bob'' \<mapsto> 0, ''alice'' \<mapsto> 0]\<rparr>"

definition freshDb :: db where
  "freshDb = \<lparr>messages = [], conversations = [''c1'' \<mapsto> freshConversation], nextId = 0\<rparr>"

definition textMessage :: "msgId \<Rightarrow> userId \<Rightarrow> userId \<Rightarrow> convId \<Rightarrow> string \<Rightarrow> msg" where
  "textMessage i s r c txt =
     \<lparr>mid = i, sender = s, recipient = Some r, conversationId = c,
      content = Some txt, imageField = None, fileField = None, reactions = [],
      edited = False, editedAt = None, deleted = False, read = False,
      messageCreatedAt = None\<rparr>"

text \<open>Two unread messages for bob and one for alice, with matching counters.\<close>

definition inboxDb :: db where
  "inboxDb =
     \<lparr>messages = [textMessage 0 ''alice'' ''bob'' ''c1'' ''one'',
                  textMessage 1 ''alice'' ''bob'' ''c1'' ''two'',
                  textMessage 2 ''bob'' ''alice'' ''c1'' ''three''],
      conversations =
        [''c1'' \<mapsto> freshConversation\<lparr>lastMessage := Some 2,
                                      unreadCount := [''bob'' \<mapsto> 2, ''alice'' \<mapsto> 1]\<rparr>],
      nextId = 3\<rparr>"

text \<open>A message of another conversation, between two other users.\<close>

definition foreignMessage :: msg where
  "foreignMessage = textMessage 7 ''carol'' ''dave'' ''c2'' ''hello''"

definition foreignDb :: db where
  "foreignDb = \<lparr>messages = [foreignMessage],
                conversations = [''c1'' \<mapsto> freshConversation], nextId = 8\<rparr>"

text \<open>A message of alice that carries an image.\<close>

definition attachmentMessage :: msg where
  "attachmentMessage =
     \<lparr>mid = 0, sender = ''alice'', recipient = Some ''bob'', conversationId = ''c1'',
      content = Some ''see attached'',
      imageField = Some \<lparr>public_id = ''p1'', url = ''http://img'', secure_url = ''https://img''\<rparr>,
      fileField = None, reactions = [], edited = False, editedAt = None,
      deleted = False, read = False, messageCreatedAt = None\<rparr>"

definition attachmentDb :: db where
  "attachmentDb = \<lparr>messages = [attachmentMessage],
                    conversations = [''c1'' \<mapsto> freshConversation], nextId = 1\<rparr>"

text \<open>The store after alice has sent bob a message with an image.\<close>

definition picture :: imageRef where
  "picture = \<lparr>public_id = ''p1'', url = ''http://img'', secure_url = ''https://img''\<rparr>"

definition imageDb :: db where
  "imageDb =
     fst (sendMessage {} Map.empty freshDb ''alice'' ''bob'' (Some ''see attached'') ''c1''
            (Some picture))"

text \<open>A message that already carries two reactions.\<close>

definition reactedDb :: db where
  "reactedDb =
     \<lparr>messages =
        [(textMessage 0 ''alice'' ''bob'' ''c1'' ''one'')
           \<lparr>reactions := [\<lparr>user = ''bob'', emoji = ''+1'', createdAt = 1\<rparr>,
                           \<lparr>user = ''alice'', emoji = ''heart'', createdAt = 2\<rparr>]\<rparr>],
      conversations = [''c1'' \<mapsto> freshConversation], nextId = 1\<rparr>"

text \<open>Two sends answered by a receipt for both, and by a receipt for the first only.\<close>

definition conversationTrace :: "op list" where
  "conversationTrace =
     [Send ''alice'' ''bob'' (Some ''one'') None,
      Send ''alice'' ''bob'' (Some ''two'') None,
      MarkRead ''bob'' [0, 1],
      Send ''bob'' ''alice'' (Some ''three'') None]"

definition partialReceiptTrace :: "op list" where
  "partialReceiptTrace =
     [Send ''alice'' ''bob'' (Some ''one'') None,
      Send ''alice'' ''bob'' (Some ''two'') None,
      MarkRead ''bob'' [0]]"

text \<open>The ids of the page a response carries.\<close>

definition pageIds :: "response \<Rightarrow> msgId list" where
  "pageIds resp = (case payloadBody resp of MessageList ms \<Rightarrow> map mid ms | _ \<Rightarrow> [])"

text \<open>One user connected twice.\<close>

definition noServer :: server where
  "noServer = \<lparr>onlineUsers = Map.empty, sockets = Map.empty\<rparr>"

definition twoConnections :: server where
  "twoConnections =
     fst (connection (fst (connection noServer ''s1'' ''alice'')) ''s2'' ''alice'')"

section \<open>Facts about the store primitives\<close>

lemma updateManyRead_messages:
  "messages (updateManyRead sel d) = map (\<lambda>m. if sel m then m\<lparr>read := True\<rparr> else m) (messages d)"
  by (simp add: updateManyRead_def)

lemma updateManyRead_conversations:
  "conversations (updateManyRead sel d) = conversations d"
  by (simp add: updateManyRead_def)

lemma saveConversation_messages: "messages (saveConversation d c conv) = messages d"
  by (simp add: saveConversation_def)

lemma insertMessage_conversations: "conversations (insertMessage d m) = conversations d"
  by (simp add: insertMessage_def)

lemma findById_mid: "findById d i = Some m \<Longrightarrow> mid m = i"
  by (auto simp: findById_def find_Some_iff)

lemma find_map_replace:
  "find (\<lambda>m. mid m = i) xs = Some m0 \<Longrightarrow> mid m = i \<Longrightarrow>
   find (\<lambda>x. mid x = i) (map (\<lambda>x. if mid x = i then m else x) xs) = Some m"
  by (induction xs) (auto split: if_splits)

lemma findById_saveMessage:
  "findById d i = Some m0 \<Longrightarrow> mid m = i \<Longrightarrow> findById (saveMessage d m) i = Some m"
  using find_map_replace [of i "messages d" m0 m]
  by (simp add: findById_def saveMessage_def)

lemma find_snoc:
  "find P (xs @ [y]) =
     (case find P xs of None \<Rightarrow> (if P y then Some y else None) | Some x \<Rightarrow> Some x)"
  by (induction xs) auto

lemma stripOne_shorter:
  assumes "\<forall>w \<in> set ws. w \<noteq> []" and "stripOne ws s = Some r"
  shows "length r < length s"
proof -
  from assms(2) obtain w where f: "find (\<lambda>w. take (length w) s = w) ws = Some w"
    and r: "r = drop (length w) s"
    by (auto simp: stripOne_def split: option.splits)
  from f have "w \<in> set ws" and t: "take (length w) s = w"
    by (auto simp: find_Some_iff)
  with assms(1) have "w \<noteq> []" by blast
  with t have "s \<noteq> []" by auto
  with \<open>w \<noteq> []\<close> show ?thesis by (simp add: r)
qed

lemma stripOne_Nil: "\<forall>w \<in> set ws. w \<noteq> [] \<Longrightarrow> stripOne ws [] = None"
  by (auto simp: stripOne_def find_None_iff split: option.splits)

text \<open>The rounds are enough: nothing is left to remove from the result.\<close>

lemma stripAll_done:
  assumes "\<forall>w \<in> set ws. w \<noteq> []"
  shows "length s \<le> n \<Longrightarrow> stripOne ws (stripAll n ws s) = None"
proof (induction n arbitrary: s)
  case 0
  then show ?case using assms by (simp add: stripOne_Nil)
next
  case (Suc n)
  show ?case
  proof (cases "stripOne ws s")
    case None
    then show ?thesis by simp
  next
    case (Some r)
    from stripOne_shorter [OF assms Some] Suc.prems have "length r \<le> n" by simp
    with Some Suc.IH show ?thesis by simp
  qed
qed

lemma whiteSpace_nonempty: "\<forall>w \<in> set whiteSpace. w \<noteq> []"
  by (simp add: whiteSpace_def)

lemma trimStart_done: "stripOne whiteSpace (trimStart s) = None"
  unfolding trimStart_def by (rule stripAll_done [OF whiteSpace_nonempty]) simp

lemma trim_Nil: "trim [] = []"
  by (simp add: trim_def trimStart_def trimEnd_def)

lemma trim_blank: "trim ''   '' = []"
  by (simp add: trim_def trimStart_def trimEnd_def stripOne_def whiteSpace_def)

text \<open>A no-break space, a line separator and a byte order mark around a word.\<close>

lemma trim_unicode:
  "trim ([CHR 0xC2, CHR 0xA0, CHR 0xE2, CHR 0x80, CHR 0xA8] @ ''hi'' @
         [CHR 0xEF, CHR 0xBB, CHR 0xBF]) = ''hi''"
  by (simp add: trim_def trimStart_def trimEnd_def stripOne_def whiteSpace_def)

section \<open>Read receipts\<close>

lemma markAsRead_messages:
  "MessageUpdateMany \<notin> failing \<Longrightarrow>
   messages (fst (markAsRead failing d u c ids)) =
     messages (updateManyRead (\<lambda>m. mid m \<in> set ids) d)"
  by (simp add: markAsRead_def Let_def saveConversation_messages split: option.splits)

text \<open>
  Claim C10. When the update of the message collection does not fail, \<open>markAsRead\<close>
  by user \<open>u\<close> with the id list \<open>ids\<close> sets \<open>read\<close> on every stored message whose id
  is in the list and leaves the others as they are. Neither the recipient of a message
  nor its conversation is consulted: the conversation id \<open>c\<close> of the call and the
  caller \<open>u\<close> do not occur on the right-hand side.
\<close>

theorem markAsRead_marks_listed:
  assumes "MessageUpdateMany \<notin> failing"
  shows "messages (fst (markAsRead failing d u c ids)) =
           map (\<lambda>m. if mid m \<in> set ids then m\<lparr>read := True\<rparr> else m) (messages d)"
  using assms by (simp add: markAsRead_messages updateManyRead_messages)

text \<open>
  Bob, in conversation \<open>c1\<close>, names message 7, which carol sent to dave in
  conversation \<open>c2\<close>: it is marked read.
\<close>

theorem markAsRead_marks_listed_witness:
  "MessageUpdateMany \<notin> {} \<and>
   messages (fst (markAsRead {} foreignDb ''bob'' ''c1'' [7])) = [foreignMessage\<lparr>read := True\<rparr>]"
  using markAsRead_marks_listed [of "{}" foreignDb "''bob''" "''c1''" "[7]"]
  by (simp add: foreignDb_def foreignMessage_def textMessage_def)

section \<open>Fetching a page\<close>

lemma getMessages_ok:
  assumes "getMessages failing d u c pageArg limitArg = (d', resp)" and "status resp = 200"
  shows "\<exists>conv. conversations d c = Some conv \<and>
           d' = saveConversation
                  (updateManyRead
                     (\<lambda>m. conversationId m = c \<and> recipient m = Some u \<and> \<not> read m) d)
                  c (conv\<lparr>unreadCount := (unreadCount conv)(u \<mapsto> 0)\<rparr>)"
  using assms
  by (auto simp: getMessages_def Let_def fetchError_def respond_def
           split: if_splits option.splits)

text \<open>
  Claim C9. A \<open>getMessages\<close> request of user \<open>u\<close> on conversation \<open>c\<close> that is
  answered with status 200 has set \<open>read\<close> on every stored message of \<open>c\<close> that is
  addressed to \<open>u\<close> and was unread, whatever page was asked for, has left every other
  message as it was, and has set the counter stored for \<open>u\<close> in \<open>c\<close> to zero.
\<close>

theorem getMessages_marks_read:
  assumes "getMessages failing d u c pageArg limitArg = (d', resp)" and "status resp = 200"
  shows "messages d' =
           map (\<lambda>m. if conversationId m = c \<and> recipient m = Some u \<and> \<not> read m
                     then m\<lparr>read := True\<rparr> else m) (messages d)
         \<and> (\<forall>m \<in> set (messages d'). conversationId m = c \<and> recipient m = Some u \<longrightarrow> read m)
         \<and> storedUnread d' c u = Some 0"
proof -
  from getMessages_ok [OF assms] obtain conv where
    d': "d' = saveConversation
                (updateManyRead
                   (\<lambda>m. conversationId m = c \<and> recipient m = Some u \<and> \<not> read m) d)
                c (conv\<lparr>unreadCount := (unreadCount conv)(u \<mapsto> 0)\<rparr>)"
    by blast
  have m: "messages d' =
           map (\<lambda>m. if conversationId m = c \<and> recipient m = Some u \<and> \<not> read m
                     then m\<lparr>read := True\<rparr> else m) (messages d)"
    by (simp add: d' saveConversation_messages updateManyRead_messages)
  have r: "\<forall>m \<in> set (messages d'). conversationId m = c \<and> recipient m = Some u \<longrightarrow> read m"
  proof
    fix x
    assume "x \<in> set (messages d')"
    then obtain y where
      y: "x = (if conversationId y = c \<and> recipient y = Some u \<and> \<not> read y
               then y\<lparr>read := True\<rparr> else y)"
      unfolding m set_map by (rule imageE)
    show "conversationId x = c \<and> recipient x = Some u \<longrightarrow> read x"
      unfolding y by (simp split: if_splits)
  qed
  have s: "storedUnread d' c u = Some 0"
    by (simp add: d' storedUnread_def saveConversation_def)
  show ?thesis by (rule conjI [OF m conjI [OF r s]])
qed

text \<open>
  Bob asks for a page of one message, the newest; both of his unread messages are
  marked, the one addressed to alice is not, and his counter is zero.
\<close>

theorem getMessages_marks_read_witness:
  "status (snd (getMessages {} inboxDb ''bob'' ''c1'' None (Some 1))) = 200 \<and>
   pageIds (snd (getMessages {} inboxDb ''bob'' ''c1'' None (Some 1))) = [2] \<and>
   map read (messages (fst (getMessages {} inboxDb ''bob'' ''c1'' None (Some 1)))) =
     [True, True, False] \<and>
   storedUnread (fst (getMessages {} inboxDb ''bob'' ''c1'' None (Some 1))) ''c1'' ''bob'' = Some 0"
proof -
  have ok: "status (snd (getMessages {} inboxDb ''bob'' ''c1'' None (Some 1))) = 200"
    by (simp add: getMessages_def inboxDb_def freshConversation_def orDefault_def Let_def
          respond_def)
  have page: "pageIds (snd (getMessages {} inboxDb ''bob'' ''c1'' None (Some 1))) = [2]"
    by (simp add: getMessages_def inboxDb_def freshConversation_def orDefault_def Let_def
          respond_def pageIds_def pageOf_def textMessage_def)
  have pair: "getMessages {} inboxDb ''bob'' ''c1'' None (Some 1) =
               (fst (getMessages {} inboxDb ''bob'' ''c1'' None (Some 1)),
                snd (getMessages {} inboxDb ''bob'' ''c1'' None (Some 1)))"
    by simp
  from getMessages_marks_read [OF pair ok] ok page show ?thesis
    by (simp add: inboxDb_def textMessage_def)
qed

section \<open>Reactions\<close>

lemma find_sameReaction_filter:
  "find (sameReaction u e) (filter (\<lambda>r. \<not> sameReaction u e r) rs) = None"
  by (simp add: find_None_iff)

lemma keys_split:
  "(\<lambda>r. (user r, emoji r)) ` set rs =
     (\<lambda>r. (user r, emoji r)) ` {r \<in> set rs. \<not> sameReaction u e r} \<union>
     (if \<exists>r \<in> set rs. sameReaction u e r then {(u, e)} else {})"
  by (auto simp: sameReaction_def)

lemma toggle_twice_set:
  "reactionSet (toggleReaction t2 u e (toggleReaction t1 u e m)) = reactionSet m"
proof (cases "find (sameReaction u e) (reactions m)")
  case None
  then have no: "\<forall>r \<in> set (reactions m). \<not> sameReaction u e r"
    by (simp add: find_None_iff)
  have new: "sameReaction u e \<lparr>user = u, emoji = e, createdAt = t1\<rparr>"
    by (simp add: sameReaction_def)
  from None no new
  have "find (sameReaction u e) (reactions (toggleReaction t1 u e m)) =
          Some \<lparr>user = u, emoji = e, createdAt = t1\<rparr>"
    by (simp add: toggleReaction_def find_snoc)
  with None no new show ?thesis
    by (auto simp: toggleReaction_def reactionSet_def)
next
  case (Some r)
  then have ex: "\<exists>r \<in> set (reactions m). sameReaction u e r"
    by (auto simp: find_Some_iff)
  have first: "reactions (toggleReaction t1 u e m) =
                 filter (\<lambda>r. \<not> sameReaction u e r) (reactions m)"
    using Some by (simp add: toggleReaction_def)
  have second: "reactions (toggleReaction t2 u e (toggleReaction t1 u e m)) =
                  filter (\<lambda>r. \<not> sameReaction u e r) (reactions m) @
                  [\<lparr>user = u, emoji = e, createdAt = t2\<rparr>]"
    by (simp add: toggleReaction_def [of t2] first find_sameReaction_filter)
  show ?thesis
    unfolding reactionSet_def second using ex
    by (simp add: keys_split [of "reactions m" u e])
qed

lemma toggle_others:
  "otherReactions u e (toggleReaction t u e m) = otherReactions u e m"
  by (simp add: otherReactions_def toggleReaction_def sameReaction_def split: option.splits)

lemma toggle_mid: "mid (toggleReaction t u e m) = mid m"
  by (simp add: toggleReaction_def split: option.splits)

lemma addReaction_found:
  "findById d i = Some m \<Longrightarrow>
   findById (fst (addReaction {} t d u i e)) i = Some (toggleReaction t u e m)"
  by (simp add: addReaction_def Let_def findById_saveMessage toggle_mid findById_mid)

lemma addReaction_missing:
  "findById d i = None \<Longrightarrow> fst (addReaction {} t d u i e) = d"
  by (simp add: addReaction_def)

text \<open>
  When the pair is absent at the start, the two toggles give back the very sequence.
\<close>

lemma toggle_twice_absent:
  assumes "find (sameReaction u e) (reactions m) = None"
  shows "reactions (toggleReaction t2 u e (toggleReaction t1 u e m)) = reactions m"
proof -
  from assms have no: "\<forall>r \<in> set (reactions m). \<not> sameReaction u e r"
    by (simp add: find_None_iff)
  have new: "sameReaction u e \<lparr>user = u, emoji = e, createdAt = t1\<rparr>"
    by (simp add: sameReaction_def)
  from assms no new
  have "find (sameReaction u e) (reactions (toggleReaction t1 u e m)) =
          Some \<lparr>user = u, emoji = e, createdAt = t1\<rparr>"
    by (simp add: toggleReaction_def find_snoc)
  with assms no new show ?thesis
    by (simp add: toggleReaction_def)
qed

text \<open>
  Claim C6. For any store, any message id, any user and emoji, two \<open>addReaction\<close>
  events with that user and emoji, one after the other with no failing store call,
  leave the message with the set of (user, emoji) pairs it had, and leave the reactions
  of every other pair as they were, in their order and with their times. (A missing
  message stays missing.)
\<close>

theorem toggle_twice_restores:
  "map_option reactionSet
     (findById (fst (addReaction {} t2 (fst (addReaction {} t1 d u i e)) u i e)) i)
   = map_option reactionSet (findById d i)
   \<and> map_option (otherReactions u e)
     (findById (fst (addReaction {} t2 (fst (addReaction {} t1 d u i e)) u i e)) i)
   = map_option (otherReactions u e) (findById d i)"
proof (cases "findById d i")
  case None
  then show ?thesis by (simp add: addReaction_missing)
next
  case (Some m)
  then show ?thesis
    by (simp add: addReaction_found toggle_twice_set toggle_others)
qed

text \<open>
  Bob toggles his reaction twice on a message that carries it: the pairs are those of
  the start.
\<close>

theorem toggle_twice_restores_witness:
  "map_option reactionSet
     (findById (fst (addReaction {} 6 (fst (addReaction {} 5 reactedDb ''bob'' 0 ''+1''))
                       ''bob'' 0 ''+1'')) 0)
   = Some {(''bob'', ''+1''), (''alice'', ''heart'')}"
  using toggle_twice_restores [of 6 5 reactedDb "''bob''" 0 "''+1''"]
  by (simp add: findById_def reactedDb_def textMessage_def reactionSet_def)

section \<open>Unread counters\<close>

lemma sendMessage_ok_store:
  "fst (sendMessage {} online d u r ca c ia) =
     saveConversation
       (insertMessage d
          \<lparr>mid = nextId d, sender = u, recipient = Some r, conversationId = c,
           content = (case ca of None \<Rightarrow> None | Some s \<Rightarrow> if s = [] then None else Some s),
           imageField = ia, fileField = None, reactions = [], edited = False,
           editedAt = None, deleted = False, read = False, messageCreatedAt = None\<rparr>)
       c
       (case conversations d c of
          None \<Rightarrow> \<lparr>cid = c, participants = [u, r], lastMessage = Some (nextId d),
                    unreadCount = [r \<mapsto> 1]\<rparr>
        | Some conv \<Rightarrow> conv\<lparr>lastMessage := Some (nextId d),
                            unreadCount := (unreadCount conv)(r \<mapsto> getUnread conv r + 1)\<rparr>)"
  by (simp add: sendMessage_def Let_def insertMessage_def split: option.splits)

lemma unreadTo_send:
  "unreadTo (fst (sendMessage {} online d u r ca c ia)) c p =
     unreadTo d c p + (if p = r then 1 else 0)"
  by (simp add: sendMessage_ok_store unreadTo_def saveConversation_def insertMessage_def)

lemma storedUnread_send:
  "conversations d c = Some conv \<Longrightarrow>
   storedUnread (fst (sendMessage {} online d u r ca c ia)) c p =
     (if p = r then Some (getUnread conv r + 1) else unreadCount conv p)"
  by (simp add: sendMessage_ok_store storedUnread_def saveConversation_def insertMessage_def)

lemma counterAgrees_send:
  assumes "counterAgrees d c p"
  shows "counterAgrees (fst (sendMessage {} online d u r ca c ia)) c p"
proof -
  from assms obtain conv where conv: "conversations d c = Some conv"
    and cnt: "unreadCount conv p = Some (unreadTo d c p)"
    by (auto simp: counterAgrees_def storedUnread_def split: option.splits)
  show ?thesis
    unfolding counterAgrees_def storedUnread_send [OF conv] unreadTo_send
    using cnt by (auto simp: getUnread_def)
qed

lemma markAsRead_ok_store:
  "conversations d c = Some conv \<Longrightarrow>
   fst (markAsRead {} d u c ids) =
     saveConversation (updateManyRead (\<lambda>m. mid m \<in> set ids) d) c
       (conv\<lparr>unreadCount := (unreadCount conv)(u \<mapsto> 0)\<rparr>)"
  by (simp add: markAsRead_def Let_def updateManyRead_conversations)

lemma length_filter_map_eq:
  "\<forall>x \<in> set xs. Q (f x) = R x \<Longrightarrow> length (filter Q (map f xs)) = length (filter R xs)"
  by (induction xs) simp_all

lemma unread_after_receipt:
  assumes "list_all (\<lambda>m. conversationId m = c \<and> \<not> read m \<longrightarrow>
               (mid m \<in> set ids) = (recipient m = Some u)) ms"
  shows "length (filter (\<lambda>m. conversationId m = c \<and> recipient m = Some p \<and> \<not> read m)
             (map (\<lambda>m. if mid m \<in> set ids then m\<lparr>read := True\<rparr> else m) ms)) =
   (if p = u then 0
    else length (filter (\<lambda>m. conversationId m = c \<and> recipient m = Some p \<and> \<not> read m) ms))"
proof -
  have each: "\<forall>x \<in> set ms.
      (conversationId (if mid x \<in> set ids then x\<lparr>read := True\<rparr> else x) = c \<and>
       recipient (if mid x \<in> set ids then x\<lparr>read := True\<rparr> else x) = Some p \<and>
       \<not> read (if mid x \<in> set ids then x\<lparr>read := True\<rparr> else x)) =
      (p \<noteq> u \<and> conversationId x = c \<and> recipient x = Some p \<and> \<not> read x)"
  proof
    fix x
    assume "x \<in> set ms"
    with assms have px: "conversationId x = c \<and> \<not> read x \<longrightarrow>
               (mid x \<in> set ids) = (recipient x = Some u)"
      by (simp add: list_all_iff)
    show "(conversationId (if mid x \<in> set ids then x\<lparr>read := True\<rparr> else x) = c \<and>
       recipient (if mid x \<in> set ids then x\<lparr>read := True\<rparr> else x) = Some p \<and>
       \<not> read (if mid x \<in> set ids then x\<lparr>read := True\<rparr> else x)) =
      (p \<noteq> u \<and> conversationId x = c \<and> recipient x = Some p \<and> \<not> read x)"
    proof (cases "mid x \<in> set ids")
      case True
      with px show ?thesis by auto
    next
      case False
      with px show ?thesis by auto
    qed
  qed
  have "length (filter (\<lambda>m. conversationId m = c \<and> recipient m = Some p \<and> \<not> read m)
             (map (\<lambda>m. if mid m \<in> set ids then m\<lparr>read := True\<rparr> else m) ms)) =
        length (filter (\<lambda>x. p \<noteq> u \<and> conversationId x = c \<and> recipient x = Some p \<and> \<not> read x) ms)"
    using each by (rule length_filter_map_eq)
  also have "\<dots> = (if p = u then 0
    else length (filter (\<lambda>m. conversationId m = c \<and> recipient m = Some p \<and> \<not> read m) ms))"
    by (cases "p = u") simp_all
  finally show ?thesis .
qed

lemma counterAgrees_markAsRead:
  assumes "counterAgrees d c p" and "complete c d (MarkRead u ids)"
  shows "counterAgrees (fst (markAsRead {} d u c ids)) c p"
proof -
  from assms(1) obtain conv where conv: "conversations d c = Some conv"
    and cnt: "unreadCount conv p = Some (unreadTo d c p)"
    by (auto simp: counterAgrees_def storedUnread_def split: option.splits)
  from assms(2) have cover:
    "list_all (\<lambda>m. conversationId m = c \<and> \<not> read m \<longrightarrow>
               (mid m \<in> set ids) = (recipient m = Some u)) (messages d)"
    by simp
  have stored: "storedUnread (fst (markAsRead {} d u c ids)) c p =
                  (if p = u then Some 0 else unreadCount conv p)"
    by (simp add: markAsRead_ok_store [OF conv] storedUnread_def saveConversation_def)
  have count: "unreadTo (fst (markAsRead {} d u c ids)) c p =
                 (if p = u then 0 else unreadTo d c p)"
    using unread_after_receipt [OF cover, of p]
    by (simp add: markAsRead_ok_store [OF conv] unreadTo_def saveConversation_messages
          updateManyRead_messages)
  show ?thesis
    unfolding counterAgrees_def stored count using cnt by simp
qed

lemma counterAgrees_applyOp:
  "counterAgrees d c p \<Longrightarrow> complete c d x \<Longrightarrow> counterAgrees (applyOp online c d x) c p"
  by (cases x) (simp_all add: counterAgrees_send counterAgrees_markAsRead del: complete.simps)

lemma freshDb_agrees: "counterAgrees freshDb ''c1'' ''bob''"
  by (simp add: counterAgrees_def storedUnread_def unreadTo_def freshDb_def freshConversation_def)

text \<open>
  Claim C1, as the handlers have it. \<open>markAsRead\<close> sets the reader's counter to zero
  whatever its list names, so the counter follows the unread messages only under
  complete receipts: if the counter stored for \<open>p\<close> in conversation \<open>c\<close> equals the
  number of unread messages of \<open>c\<close> addressed to \<open>p\<close>, it still does after any finite
  sequence of \<open>sendMessage\<close> and \<open>markAsRead\<close> events on \<open>c\<close>, run one after the other
  with no failing store call, in which every receipt names, among the unread messages
  of \<open>c\<close>, exactly those addressed to its reader.
\<close>

theorem counter_agrees_under_complete_receipts:
  assumes "counterAgrees d c p" and "allComplete online c d ops"
  shows "counterAgrees (run online c d ops) c p"
  using assms
proof (induction ops arbitrary: d)
  case Nil
  then show ?case by simp
next
  case (Cons x xs)
  from Cons.prems have "counterAgrees (applyOp online c d x) c p"
    by (simp add: counterAgrees_applyOp)
  moreover from Cons.prems have "allComplete online c (applyOp online c d x) xs"
    by simp
  ultimately show ?case
    using Cons.IH by simp
qed

text \<open>
  Alice sends two messages, bob acknowledges both, bob answers: all receipts are
  complete and bob's counter agrees at the end.
\<close>

theorem counter_agrees_under_complete_receipts_witness:
  "counterAgrees freshDb ''c1'' ''bob'' \<and>
   allComplete Map.empty ''c1'' freshDb conversationTrace \<and>
   counterAgrees (run Map.empty ''c1'' freshDb conversationTrace) ''c1'' ''bob''"
proof -
  have ok: "allComplete Map.empty ''c1'' freshDb conversationTrace"
    by (simp add: conversationTrace_def freshDb_def freshConversation_def sendMessage_ok_store
        markAsRead_def updateManyRead_def saveConversation_def insertMessage_def Let_def
        getUnread_def)
  from counter_agrees_under_complete_receipts [OF freshDb_agrees ok] freshDb_agrees ok
  show ?thesis by simp
qed

text \<open>
  Claim C1 as stated fails: alice sends two messages to bob and bob acknowledges the
  first only. Bob's stored counter is zero while one message addressed to him is unread.
\<close>

theorem unread_counter_counterexample:
  "storedUnread (run Map.empty ''c1'' freshDb partialReceiptTrace) ''c1'' ''bob'' = Some 0 \<and>
   unreadTo (run Map.empty ''c1'' freshDb partialReceiptTrace) ''c1'' ''bob'' = 1 \<and>
   \<not> counterAgrees (run Map.empty ''c1'' freshDb partialReceiptTrace) ''c1'' ''bob''"
  by (simp add: partialReceiptTrace_def freshDb_def freshConversation_def sendMessage_ok_store
        markAsRead_def updateManyRead_def saveConversation_def insertMessage_def Let_def
        getUnread_def counterAgrees_def storedUnread_def unreadTo_def)

section \<open>Failing store calls in sendMessage\<close>

text \<open>
  Claim C2, as the handler has it. When one of the four store calls of \<open>sendMessage\<close>
  fails, the only event is the error sent to the calling connection and the
  conversation collection is as before; the message collection is as before when the
  failing call is the save of the message.
\<close>

theorem sendMessage_failure_contained:
  assumes "MessageSave \<in> failing \<or> MessagePopulate \<in> failing \<or>
           ConversationFindById \<in> failing \<or> ConversationSave \<in> failing"
  shows "snd (sendMessage failing online d u r ca c ia) =
           [(ToSender, MessageError ''Failed to send message'')]
         \<and> conversations (fst (sendMessage failing online d u r ca c ia)) = conversations d
         \<and> (MessageSave \<in> failing \<longrightarrow>
              messages (fst (sendMessage failing online d u r ca c ia)) = messages d)"
  using assms
  by (auto simp: sendMessage_def Let_def sendError_def insertMessage_conversations)

text \<open>The save of the conversation fails in one call, the save of the message in another.\<close>

theorem sendMessage_failure_contained_witness:
  "ConversationSave \<in> {ConversationSave} \<and>
   snd (sendMessage {ConversationSave} Map.empty freshDb ''alice'' ''bob'' (Some ''hi'') ''c1'' None) =
     [(ToSender, MessageError ''Failed to send message'')] \<and>
   storedUnread
     (fst (sendMessage {ConversationSave} Map.empty freshDb ''alice'' ''bob'' (Some ''hi'') ''c1'' None))
     ''c1'' ''bob'' = Some 0 \<and>
   messages (fst (sendMessage {MessageSave} Map.empty freshDb ''alice'' ''bob'' (Some ''hi'') ''c1'' None)) = []"
  using sendMessage_failure_contained
          [of "{ConversationSave}" Map.empty freshDb "''alice''" "''bob''" "Some ''hi''" "''c1''" None]
        sendMessage_failure_contained
          [of "{MessageSave}" Map.empty freshDb "''alice''" "''bob''" "Some ''hi''" "''c1''" None]
  by (simp add: storedUnread_def freshDb_def freshConversation_def)

text \<open>
  Claim C2 as stated fails: when the save of the conversation fails, the sender gets
  the error, yet the message is in the store and bob's next \<open>getMessages\<close> returns it.
\<close>

theorem sendMessage_partial_counterexample:
  "snd (sendMessage {ConversationSave} Map.empty freshDb ''alice'' ''bob'' (Some ''hi'') ''c1'' None) =
     [(ToSender, MessageError ''Failed to send message'')] \<and>
   messages freshDb = [] \<and>
   map mid (messages
     (fst (sendMessage {ConversationSave} Map.empty freshDb ''alice'' ''bob'' (Some ''hi'') ''c1'' None))) = [0] \<and>
   pageIds (snd (getMessages {}
     (fst (sendMessage {ConversationSave} Map.empty freshDb ''alice'' ''bob'' (Some ''hi'') ''c1'' None))
     ''bob'' ''c1'' None None)) = [0]"
  by (simp add: sendMessage_def Let_def sendError_def insertMessage_def freshDb_def
        freshConversation_def getMessages_def orDefault_def pageOf_def respond_def pageIds_def)

section \<open>Presence on disconnect\<close>

text \<open>
  Claim C5, as the handler has it. The table of online users holds one socket id per
  user and the disconnect handler consults nothing: whenever a live connection of
  user \<open>u\<close> disconnects, the offline event for \<open>u\<close> is broadcast and \<open>u\<close> has no entry
  in the table afterwards.
\<close>

theorem disconnect_always_offline:
  assumes "sockets srv sid = Some u"
  shows "snd (disconnect srv sid) = [(ToAll, UserStatus u ''offline'')]
         \<and> onlineUsers (fst (disconnect srv sid)) u = None"
  using assms by (simp add: disconnect_def)

text \<open>Alice's first connection disconnects.\<close>

theorem disconnect_always_offline_witness:
  "sockets twoConnections ''s1'' = Some ''alice'' \<and>
   snd (disconnect twoConnections ''s1'') = [(ToAll, UserStatus ''alice'' ''offline'')] \<and>
   onlineUsers (fst (disconnect twoConnections ''s1'')) ''alice'' = None"
proof -
  have live: "sockets twoConnections ''s1'' = Some ''alice''"
    by (simp add: twoConnections_def connection_def noServer_def)
  from disconnect_always_offline [OF live] live show ?thesis by simp
qed

text \<open>
  Claim C5 as stated fails: alice has two live connections and the first disconnects.
  The second is still live, yet the offline event is broadcast and alice is no longer
  in the table of online users.
\<close>

theorem disconnect_second_connection_counterexample:
  "sockets twoConnections ''s1'' = Some ''alice'' \<and>
   sockets twoConnections ''s2'' = Some ''alice'' \<and>
   sockets (fst (disconnect twoConnections ''s1'')) ''s2'' = Some ''alice'' \<and>
   snd (disconnect twoConnections ''s1'') = [(ToAll, UserStatus ''alice'' ''offline'')] \<and>
   onlineUsers (fst (disconnect twoConnections ''s1'')) ''alice'' = None"
  by (simp add: twoConnections_def connection_def noServer_def disconnect_def)

section \<open>Validation of a new message\<close>

text \<open>The HTTP route refuses a message without text and without image, and stores nothing.\<close>

lemma addMessage_rejects:
  "nothingToSend ca ia \<Longrightarrow>
   addMessage failing now d u c ca ia =
     (d, respond 400 False (Text ''Message must have text or an image''))"
  by (simp add: addMessage_def)

lemma addMessage_accepts:
  "\<not> nothingToSend ca ia \<Longrightarrow> status (snd (addMessage failing now d u c ca ia)) \<noteq> 400"
  by (simp add: addMessage_def Let_def addError_def respond_def split: option.splits)

text \<open>
  Claim C3 fails on the socket event. With a text of three spaces and no image, and
  with neither text nor image, \<open>sendMessage\<close> has no check of its own: when no store
  call fails it stores the message and emits it to the room, where \<open>addMessage\<close>
  answers 400 for the same arguments.
\<close>

theorem sendMessage_accepts_blank:
  "nothingToSend (Some ''   '') None \<and>
   map content (messages
     (fst (sendMessage {} Map.empty freshDb ''alice'' ''bob'' (Some ''   '') ''c1'' None))) =
     [Some ''   ''] \<and>
   map fst (snd (sendMessage {} Map.empty freshDb ''alice'' ''bob'' (Some ''   '') ''c1'' None)) =
     [ToRoom ''c1''] \<and>
   nothingToSend None None \<and>
   map content (messages
     (fst (sendMessage {} Map.empty freshDb ''alice'' ''bob'' None ''c1'' None))) = [None] \<and>
   map fst (snd (sendMessage {} Map.empty freshDb ''alice'' ''bob'' None ''c1'' None)) =
     [ToRoom ''c1'']"
  by (simp add: nothingToSend_def trim_blank sendMessage_def Let_def insertMessage_def
        saveConversation_def freshDb_def freshConversation_def)

section \<open>A conversation created by sendMessage\<close>

text \<open>
  What the creation branch stores: the two participants, one for the recipient, and no
  entry for a sender who is not the recipient.
\<close>

lemma sendMessage_creates:
  assumes "conversations d c = None"
  shows "\<exists>conv. conversations (fst (sendMessage {} online d u r ca c ia)) c = Some conv \<and>
           participants conv = [u, r] \<and> unreadCount conv r = Some 1 \<and>
           (u \<noteq> r \<longrightarrow> unreadCount conv u = None)"
  using assms by (simp add: sendMessage_ok_store saveConversation_def insertMessage_def)

text \<open>
  Claim C4 fails in its entry for the sender. Alice sends to bob in a conversation
  \<open>c1\<close> that is not stored: the conversation created has the counter one for bob and
  no counter for alice.
\<close>

theorem sendMessage_new_conversation_counts:
  "conversations emptyDb ''c1'' = None \<and>
   storedUnread
     (fst (sendMessage {} Map.empty emptyDb ''alice'' ''bob'' (Some ''hi'') ''c1'' None))
     ''c1'' ''bob'' = Some 1 \<and>
   storedUnread
     (fst (sendMessage {} Map.empty emptyDb ''alice'' ''bob'' (Some ''hi'') ''c1'' None))
     ''c1'' ''alice'' = None"
  by (simp add: sendMessage_def Let_def insertMessage_def saveConversation_def emptyDb_def
        storedUnread_def)

section \<open>Editing a message\<close>

text \<open>
  The HTTP route has the three refusals, each leaving the store as it was; the socket
  event has the first two.
\<close>

lemma editMessage_failures:
  "status (snd (editMessage failing now d u i ca)) \<in> {400, 403, 404} \<Longrightarrow>
   fst (editMessage failing now d u i ca) = d"
  by (auto simp: editMessage_def Let_def respond_def saveMessage_def
           split: option.splits if_splits)

lemma editMessage_not_found:
  "findById d i = None \<Longrightarrow> MessageFindById \<notin> failing \<Longrightarrow>
   ca = Some s \<Longrightarrow> trim s \<noteq> [] \<Longrightarrow>
   editMessage failing now d u i ca = (d, respond 404 False (Text ''Message not found''))"
  by (auto simp: editMessage_def trim_Nil)

lemma editMessage_not_sender:
  "findById d i = Some m \<Longrightarrow> sender m \<noteq> u \<Longrightarrow> MessageFindById \<notin> failing \<Longrightarrow>
   ca = Some s \<Longrightarrow> trim s \<noteq> [] \<Longrightarrow>
   editMessage failing now d u i ca =
     (d, respond 403 False (Text ''You can only edit your own messages''))"
  by (auto simp: editMessage_def trim_Nil)

lemma editMessage_blank:
  "(case ca of None \<Rightarrow> True | Some s \<Rightarrow> trim s = []) \<Longrightarrow>
   editMessage failing now d u i ca =
     (d, respond 400 False (Text ''Message content cannot be empty''))"
  by (auto simp: editMessage_def split: option.splits)

lemma socket_editMessage_not_found:
  "findById d i = None \<Longrightarrow> MessageFindById \<notin> failing \<Longrightarrow>
   socket_editMessage failing now d u i ca = (d, [(ToSender, EditError ''Message not found'')])"
  by (simp add: socket_editMessage_def)

lemma socket_editMessage_not_sender:
  "findById d i = Some m \<Longrightarrow> sender m \<noteq> u \<Longrightarrow> MessageFindById \<notin> failing \<Longrightarrow>
   socket_editMessage failing now d u i ca =
     (d, [(ToSender, EditError ''You can only edit your own messages'')])"
  by (simp add: socket_editMessage_def)

text \<open>
  Claim C7 fails on the socket event. Alice edits her message to three spaces: the
  socket event stores the blank text, marks the message edited and emits it to the
  room, where the HTTP route answers 400 and leaves the store as it was.
\<close>

theorem socket_edit_accepts_blank:
  "trim ''   '' = [] \<and>
   messages (fst (socket_editMessage {} 5 attachmentDb ''alice'' 0 (Some ''   ''))) =
     [attachmentMessage\<lparr>content := Some ''   '', edited := True, editedAt := Some 5\<rparr>] \<and>
   map fst (snd (socket_editMessage {} 5 attachmentDb ''alice'' 0 (Some ''   ''))) =
     [ToRoom ''c1''] \<and>
   editMessage {} 5 attachmentDb ''alice'' 0 (Some ''   '') =
     (attachmentDb, respond 400 False (Text ''Message content cannot be empty''))"
  by (simp add: trim_blank socket_editMessage_def editMessage_def Let_def findById_def
        saveMessage_def attachmentDb_def attachmentMessage_def)

section \<open>Deleting a message\<close>

text \<open>
  What a delete by the sender stores when no store call fails: the socket event clears
  image and file, the HTTP route clears the image and does not touch the file.
\<close>

lemma socket_deleteMessage_result:
  assumes "findById d i = Some m" and "sender m = u"
    and "MessageFindById \<notin> failing" and "MessageSave \<notin> failing"
  shows "\<exists>m'. findById (fst (socket_deleteMessage failing d u i)) i = Some m' \<and>
           deleted m' \<and> content m' = Some tombstone \<and> imageField m' = None \<and>
           fileField m' = None \<and> sender m' = sender m \<and>
           conversationId m' = conversationId m \<and> mid m' = mid m"
  using assms findById_mid [OF assms(1)]
  by (simp add: socket_deleteMessage_def Let_def findById_saveMessage)

lemma deleteMessage_result:
  assumes "findById d i = Some m" and "sender m = u"
    and "MessageFindById \<notin> failing" and "MessageSave \<notin> failing"
  shows "\<exists>m'. findById (fst (deleteMessage failing d u i)) i = Some m' \<and>
           deleted m' \<and> content m' = Some tombstone \<and> imageField m' = None \<and>
           fileField m' = fileField m \<and> sender m' = sender m \<and>
           conversationId m' = conversationId m \<and> mid m' = mid m"
  using assms findById_mid [OF assms(1)]
  by (simp add: deleteMessage_def Let_def findById_saveMessage)

text \<open>When a delete has succeeded: the message was there, the caller had sent it.\<close>

lemma socket_deleteMessage_success:
  assumes "snd (socket_deleteMessage failing d u i) = [(ToRoom c, MessageDeleted i u)]"
  shows "\<exists>m. findById d i = Some m \<and> sender m = u \<and>
           MessageFindById \<notin> failing \<and> MessageSave \<notin> failing"
  using assms
  by (simp add: socket_deleteMessage_def Let_def split: if_splits option.splits)

lemma deleteMessage_success:
  assumes "status (snd (deleteMessage failing d u i)) = 200"
  shows "\<exists>m. findById d i = Some m \<and> sender m = u \<and>
           MessageFindById \<notin> failing \<and> MessageSave \<notin> failing"
  using assms
  by (simp add: deleteMessage_def Let_def respond_def split: if_splits option.splits)

subsection \<open>No handler stores a file\<close>

text \<open>
  The handlers write the file of a message in one place only, where the socket event
  \<open>deleteMessage\<close> clears it. A store without files therefore stays without files
  under every handler, and the empty store has none.
\<close>

lemma list_all_map_keeps:
  "list_all P xs \<Longrightarrow> (\<And>x. P x \<Longrightarrow> P (f x)) \<Longrightarrow> list_all P (map f xs)"
  by (induction xs) simp_all

lemma noFiles_emptyDb: "noFiles emptyDb"
  by (simp add: noFiles_def emptyDb_def)

lemma noFiles_findById: "noFiles d \<Longrightarrow> findById d i = Some m \<Longrightarrow> fileField m = None"
  by (auto simp: noFiles_def findById_def find_Some_iff list_all_iff)

lemma noFiles_insertMessage:
  "noFiles d \<Longrightarrow> fileField m = None \<Longrightarrow> noFiles (insertMessage d m)"
  by (simp add: noFiles_def insertMessage_def)

lemma noFiles_saveMessage:
  assumes "noFiles d" and "fileField m = None"
  shows "noFiles (saveMessage d m)"
proof -
  from assms(1) have "list_all (\<lambda>x. fileField x = None) (messages d)"
    by (simp add: noFiles_def)
  then have "list_all (\<lambda>x. fileField x = None)
               (map (\<lambda>x. if mid x = mid m then m else x) (messages d))"
    by (rule list_all_map_keeps) (simp add: assms(2))
  then show ?thesis by (simp add: noFiles_def saveMessage_def)
qed

lemma noFiles_saveConversation: "noFiles (saveConversation d c conv) = noFiles d"
  by (simp add: noFiles_def saveConversation_def)

lemma noFiles_updateManyRead:
  assumes "noFiles d"
  shows "noFiles (updateManyRead sel d)"
proof -
  from assms have "list_all (\<lambda>x. fileField x = None) (messages d)"
    by (simp add: noFiles_def)
  then have "list_all (\<lambda>x. fileField x = None)
               (map (\<lambda>m. if sel m then m\<lparr>read := True\<rparr> else m) (messages d))"
    by (rule list_all_map_keeps) simp
  then show ?thesis by (simp add: noFiles_def updateManyRead_def)
qed

lemma noFiles_sendMessage:
  "noFiles d \<Longrightarrow> noFiles (fst (sendMessage failing online d u r ca c ia))"
  by (simp add: sendMessage_def Let_def noFiles_saveConversation noFiles_insertMessage)

lemma noFiles_markAsRead:
  "noFiles d \<Longrightarrow> noFiles (fst (markAsRead failing d u c ids))"
  by (simp add: markAsRead_def Let_def noFiles_saveConversation noFiles_updateManyRead
        split: option.splits)

lemma toggleReaction_fileField: "fileField (toggleReaction t u e m) = fileField m"
  by (simp add: toggleReaction_def split: option.splits)

lemma noFiles_addReaction:
  "noFiles d \<Longrightarrow> noFiles (fst (addReaction failing t d u i e))"
  by (simp add: addReaction_def Let_def noFiles_saveMessage toggleReaction_fileField
        noFiles_findById split: option.splits)

lemma noFiles_socket_editMessage:
  "noFiles d \<Longrightarrow> noFiles (fst (socket_editMessage failing t d u i ca))"
  by (simp add: socket_editMessage_def Let_def noFiles_saveMessage noFiles_findById
        split: option.splits)

lemma noFiles_socket_deleteMessage:
  "noFiles d \<Longrightarrow> noFiles (fst (socket_deleteMessage failing d u i))"
  by (simp add: socket_deleteMessage_def Let_def noFiles_saveMessage split: option.splits)

lemma noFiles_getMessages:
  "noFiles d \<Longrightarrow> noFiles (fst (getMessages failing d u c pageArg limitArg))"
  by (simp add: getMessages_def Let_def noFiles_saveConversation noFiles_updateManyRead
        split: option.splits)

lemma noFiles_addMessage:
  "noFiles d \<Longrightarrow> noFiles (fst (addMessage failing t d u c ca ia))"
  by (simp add: addMessage_def Let_def noFiles_saveConversation noFiles_insertMessage
        split: option.splits)

lemma noFiles_deleteMessage:
  "noFiles d \<Longrightarrow> noFiles (fst (deleteMessage failing d u i))"
  by (simp add: deleteMessage_def Let_def noFiles_saveMessage noFiles_findById
        split: option.splits)

lemma noFiles_editMessage:
  "noFiles d \<Longrightarrow> noFiles (fst (editMessage failing t d u i ca))"
  by (simp add: editMessage_def Let_def noFiles_saveMessage noFiles_findById
        split: option.splits)

text \<open>
  Claim C8. On a store in which no message carries a file, as is every store the
  handlers produce from the empty one, a delete that succeeds (the socket event emits
  the deletion to the room, the HTTP route answers 200) was asked for by the sender of
  an existing message, and the stored message is then marked deleted, has the tombstone
  as its text, has neither image nor file, and has the sender, the conversation and the
  id it had.
\<close>

theorem delete_clears_message:
  assumes "noFiles d"
  shows "(snd (socket_deleteMessage failing d u i) = [(ToRoom c, MessageDeleted i u)] \<longrightarrow>
           (\<exists>m m'. findById d i = Some m \<and> sender m = u \<and>
              findById (fst (socket_deleteMessage failing d u i)) i = Some m' \<and>
              deleted m' \<and> content m' = Some tombstone \<and> imageField m' = None \<and>
              fileField m' = None \<and> sender m' = sender m \<and>
              conversationId m' = conversationId m \<and> mid m' = mid m))
       \<and> (status (snd (deleteMessage failing d u i)) = 200 \<longrightarrow>
           (\<exists>m m'. findById d i = Some m \<and> sender m = u \<and>
              findById (fst (deleteMessage failing d u i)) i = Some m' \<and>
              deleted m' \<and> content m' = Some tombstone \<and> imageField m' = None \<and>
              fileField m' = None \<and> sender m' = sender m \<and>
              conversationId m' = conversationId m \<and> mid m' = mid m))"
proof (intro conjI impI)
  assume "snd (socket_deleteMessage failing d u i) = [(ToRoom c, MessageDeleted i u)]"
  from socket_deleteMessage_success [OF this] obtain m where
    m: "findById d i = Some m" "sender m = u"
       "MessageFindById \<notin> failing" "MessageSave \<notin> failing"
    by blast
  from socket_deleteMessage_result [OF m] m(1,2)
  show "\<exists>m m'. findById d i = Some m \<and> sender m = u \<and>
              findById (fst (socket_deleteMessage failing d u i)) i = Some m' \<and>
              deleted m' \<and> content m' = Some tombstone \<and> imageField m' = None \<and>
              fileField m' = None \<and> sender m' = sender m \<and>
              conversationId m' = conversationId m \<and> mid m' = mid m"
    by blast
next
  assume "status (snd (deleteMessage failing d u i)) = 200"
  from deleteMessage_success [OF this] obtain m where
    m: "findById d i = Some m" "sender m = u"
       "MessageFindById \<notin> failing" "MessageSave \<notin> failing"
    by blast
  from noFiles_findById [OF assms m(1)] have nofile: "fileField m = None" .
  from deleteMessage_result [OF m] obtain m' where
    m': "findById (fst (deleteMessage failing d u i)) i = Some m'"
        "deleted m'" "content m' = Some tombstone" "imageField m' = None"
        "fileField m' = fileField m" "sender m' = sender m"
        "conversationId m' = conversationId m" "mid m' = mid m"
    by blast
  from m(1,2) m' nofile
  show "\<exists>m m'. findById d i = Some m \<and> sender m = u \<and>
              findById (fst (deleteMessage failing d u i)) i = Some m' \<and>
              deleted m' \<and> content m' = Some tombstone \<and> imageField m' = None \<and>
              fileField m' = None \<and> sender m' = sender m \<and>
              conversationId m' = conversationId m \<and> mid m' = mid m"
    by simp
qed

text \<open>
  Alice deletes the message with an image that she has sent to bob, by the socket event
  and by the HTTP route: both succeed and both leave the tombstone without image or file.
\<close>

theorem delete_clears_message_witness:
  "noFiles imageDb \<and>
   map imageField (messages imageDb) = [Some picture] \<and>
   snd (socket_deleteMessage {} imageDb ''alice'' 0) = [(ToRoom ''c1'', MessageDeleted 0 ''alice'')] \<and>
   status (snd (deleteMessage {} imageDb ''alice'' 0)) = 200 \<and>
   map deleted (messages (fst (deleteMessage {} imageDb ''alice'' 0))) = [True] \<and>
   map content (messages (fst (deleteMessage {} imageDb ''alice'' 0))) = [Some tombstone] \<and>
   map imageField (messages (fst (deleteMessage {} imageDb ''alice'' 0))) = [None] \<and>
   map fileField (messages (fst (deleteMessage {} imageDb ''alice'' 0))) = [None] \<and>
   map sender (messages (fst (deleteMessage {} imageDb ''alice'' 0))) = [''alice''] \<and>
   map conversationId (messages (fst (deleteMessage {} imageDb ''alice'' 0))) = [''c1'']"
proof -
  have store: "messages imageDb =
      [\<lparr>mid = 0, sender = ''alice'', recipient = Some ''bob'', conversationId = ''c1'',
        content = Some ''see attached'', imageField = Some picture, fileField = None,
        reactions = [], edited = False, editedAt = None, deleted = False, read = False,
        messageCreatedAt = None\<rparr>]"
    by (simp add: imageDb_def sendMessage_def Let_def insertMessage_def saveConversation_def
          freshDb_def freshConversation_def)
  have clean: "noFiles imageDb"
    by (simp add: noFiles_def store)
  from delete_clears_message [OF clean, of "{}" "''alice''" 0 "''c1''"] clean
  show ?thesis
    by (simp add: store deleteMessage_def socket_deleteMessage_def Let_def findById_def
          saveMessage_def respond_def)
qed

end
